theory Spec2Isabelle
  imports
    Complex_Main
    "HOL-Library.Char_ord"
    "HOL-Library.List_Lexorder"
    "HOL-Library.Product_Lexorder"
    "HOL-Library.Sublist"
begin

section \<open>Data model\<close>

text \<open>
  A calendar date as \<^verbatim>\<open>datetime.date\<close> exposes it (the library keeps
  \<open>1 \<le> year \<le> 9999\<close> and \<open>1 \<le> month \<le> 12\<close>).
\<close>

record date =
  year :: nat
  month :: nat
  day :: nat

text \<open>
  A transaction is a Python dictionary with the keys \<^verbatim>\<open>date\<close>,
  \<^verbatim>\<open>description\<close>, \<^verbatim>\<open>amount\<close> and (after categorization)
  \<^verbatim>\<open>category\<close>.  A field is \<open>None\<close> when \<^verbatim>\<open>t.get(key)\<close>
  yields \<^verbatim>\<open>None\<close>.  The amount type \<open>'a\<close> stands for Python's
  \<^verbatim>\<open>float\<close>; the aggregation only needs its \<open>0\<close> and \<open>+\<close> and assumes
  no law about them.
\<close>

record 'a transaction =
  date :: "date option"
  description :: "string option"
  amount :: "'a option"
  category :: "string option"

record 'a summary =
  total :: 'a
  count :: int
  by_category :: "(string \<times> 'a) list"


text \<open>
  One record of \<^verbatim>\<open>csv.DictReader\<close>: a dictionary from column names to cells.
  A cell is \<open>None\<close> when the line was shorter than the header.
\<close>

type_synonym row = "(string \<times> string option) list"

text \<open>The exceptions of the pipeline, each with its message.\<close>

datatype error =
    ValueError string
  | AttributeError string
  | FileNotFoundError string
  | KeyError string

text \<open>
  The functions of the Python runtime that the code calls and that are no code of the
  repository.  They are parameters of the model, so every property below holds
  whatever they compute: \<open>strptime s fmt\<close> is
  \<^verbatim>\<open>datetime.strptime(s, fmt).date()\<close>, \<open>fromisoformat s\<close> is
  \<^verbatim>\<open>datetime.fromisoformat(s).date()\<close>, \<open>float_of_str\<close> is \<^verbatim>\<open>float\<close> on
  text (all three raise on text they reject), \<open>float_lit q\<close> is the float a numeric
  literal of value \<open>q\<close> denotes, and \<open>format_2f\<close> is the format specification
  \<^verbatim>\<open>.2f\<close>.
\<close>

record 'a pylib =
  strptime :: "string \<Rightarrow> string \<Rightarrow> error + date"
  fromisoformat :: "string \<Rightarrow> error + date"
  float_of_str :: "string \<Rightarrow> error + 'a"
  float_lit :: "real \<Rightarrow> 'a"
  format_2f :: "'a \<Rightarrow> string"

section \<open>Python text operations\<close>

text \<open>
  \<^verbatim>\<open>str.strip()\<close> and \<^verbatim>\<open>str.lower()\<close> on ASCII text, \<^verbatim>\<open>x or y\<close> on
  values that are \<^verbatim>\<open>None\<close> or text (the empty text is falsy), and
  \<^verbatim>\<open>f"{x}"\<close> of such a value.  The containment test \<^verbatim>\<open>kw in desc\<close> is
  \<^const>\<open>sublist\<close>.
\<close>

definition is_space :: "char \<Rightarrow> bool" where
  "is_space c \<longleftrightarrow>
     c \<in> set [CHR '' '', CHR 0x09, CHR 0x0A, CHR 0x0B, CHR 0x0C, CHR 0x0D,
               CHR 0x1C, CHR 0x1D, CHR 0x1E, CHR 0x1F]"

definition py_strip :: "string \<Rightarrow> string" where
  "py_strip s = rev (dropWhile is_space (rev (dropWhile is_space s)))"



definition py_or :: "string option \<Rightarrow> string option \<Rightarrow> string option" where
  "py_or a b = (case a of None \<Rightarrow> b | Some s \<Rightarrow> if s = [] then b else a)"

definition py_or_str :: "string option \<Rightarrow> string \<Rightarrow> string" where
  "py_or_str a b = (case a of None \<Rightarrow> b | Some s \<Rightarrow> if s = [] then b else s)"

definition py_str :: "string option \<Rightarrow> string" where
  "py_str a = (case a of None \<Rightarrow> ''None'' | Some s \<Rightarrow> s)"

text \<open>\<^verbatim>\<open>x.strip()\<close> where \<open>x\<close> may be \<^verbatim>\<open>None\<close>, which has no such method.\<close>

definition strip_opt :: "string option \<Rightarrow> error + string" where
  "strip_opt a =
     (case a of
        None \<Rightarrow> Inl (AttributeError ''NoneType object has no attribute strip'')
      | Some s \<Rightarrow> Inr (py_strip s))"

text \<open>\<^verbatim>\<open>row.get(key)\<close>: \<^verbatim>\<open>None\<close> for a missing key and for a missing cell.\<close>

definition row_get :: "row \<Rightarrow> string \<Rightarrow> string option" where
  "row_get r k = (case map_of r k of None \<Rightarrow> None | Some cell \<Rightarrow> cell)"

section \<open>Parser: \<^verbatim>\<open>parse_transactions\<close>\<close>

text \<open>
  Lines 31-37: the loop over the three formats.  Both the call of \<^verbatim>\<open>strip\<close> and
  the call of \<^verbatim>\<open>strptime\<close> stand inside the \<^verbatim>\<open>try\<close>, and the handler
  catches every \<^verbatim>\<open>Exception\<close> and goes on with the next format.
\<close>

fun try_formats :: "'a pylib \<Rightarrow> string option \<Rightarrow> string list \<Rightarrow> date option" where
  "try_formats L raw_date [] = None"
| "try_formats L raw_date (fmt # fmts) =
     (case (case strip_opt raw_date of Inl e \<Rightarrow> Inl e | Inr s \<Rightarrow> strptime L s fmt) of
        Inr d \<Rightarrow> Some d
      | Inl e \<Rightarrow> try_formats L raw_date fmts)"

text \<open>
  Lines 31-43: when no format matched, the generic parse is tried, again with
  \<^verbatim>\<open>strip\<close> inside the \<^verbatim>\<open>try\<close>; every exception there is replaced by the
  \<^verbatim>\<open>ValueError\<close> of line 43.
\<close>

definition parse_date :: "'a pylib \<Rightarrow> string option \<Rightarrow> error + date" where
  "parse_date L raw_date =
     (case try_formats L raw_date [''%Y-%m-%d'', ''%d-%m-%Y'', ''%m-%d-%Y''] of
        Some d \<Rightarrow> Inr d
      | None \<Rightarrow>
          (case (case strip_opt raw_date of Inl e \<Rightarrow> Inl e | Inr s \<Rightarrow> fromisoformat L s) of
             Inr d \<Rightarrow> Inr d
           | Inl e \<Rightarrow> Inl (ValueError (''Unrecognized date format: '' @ py_str raw_date))))"

text \<open>
  Lines 46-49: the second conversion is outside any \<^verbatim>\<open>try\<close>, its exception
  leaves the function.  \<^verbatim>\<open>replace(",", "")\<close> removes every comma.
\<close>

definition parse_amount :: "'a pylib \<Rightarrow> string \<Rightarrow> error + 'a" where
  "parse_amount L amt_raw =
     (case float_of_str L amt_raw of
        Inr a \<Rightarrow> Inr a
      | Inl e \<Rightarrow> float_of_str L (filter (\<lambda>c. c \<noteq> CHR '','') amt_raw))"

text \<open>Lines 26-51: the body of the loop for one non-empty row.\<close>

definition parse_row :: "'a pylib \<Rightarrow> row \<Rightarrow> error + 'a transaction" where
  "parse_row L r =
     (let raw_date = py_or (row_get r ''date'') (row_get r ''Date'');
          desc = py_strip (py_or_str (py_or (row_get r ''description'') (row_get r ''Description'')) '''');
          amt_raw = py_or_str (py_or (row_get r ''amount'') (row_get r ''Amount'')) ''0''
      in case parse_date L raw_date of
           Inl e \<Rightarrow> Inl e
         | Inr date_obj \<Rightarrow>
             (case parse_amount L amt_raw of
                Inl e \<Rightarrow> Inl e
              | Inr a \<Rightarrow>
                  Inr \<lparr>date = Some date_obj, description = Some desc, amount = Some a,
                       category = None\<rparr>))"

text \<open>
  Lines 22-51: the loop over the rows, with the list \<^verbatim>\<open>out\<close> built so far.  An
  exception ends the loop and discards \<^verbatim>\<open>out\<close>.
\<close>

fun parse_rows :: "'a pylib \<Rightarrow> 'a transaction list \<Rightarrow> row list \<Rightarrow> error + 'a transaction list" where
  "parse_rows L out [] = Inr out"
| "parse_rows L out (r # rs) =
     (if r = [] then parse_rows L out rs
      else case parse_row L r of
             Inl e \<Rightarrow> Inl e
           | Inr t \<Rightarrow> parse_rows L (out @ [t]) rs)"

text \<open>
  The part of the operating system the function touches: for each path the rows a
  \<^verbatim>\<open>DictReader\<close> yields from that file, and the paths of the handles that are open.
  The argument is a path or a stream the caller has opened, given by the rows read
  from it.
\<close>

record os_state =
  files :: "(string \<times> row list) list"
  open_handles :: "string list"

datatype csv_source = Path string | Stream "row list"

definition open_file :: "os_state \<Rightarrow> string \<Rightarrow> error + (row list \<times> os_state)" where
  "open_file os p =
     (case map_of (files os) p of
        None \<Rightarrow> Inl (FileNotFoundError p)
      | Some rs \<Rightarrow> Inr (rs, os\<lparr>open_handles := p # open_handles os\<rparr>))"

definition close_file :: "os_state \<Rightarrow> string \<Rightarrow> os_state" where
  "close_file os p = os\<lparr>open_handles := remove1 p (open_handles os)\<rparr>"

text \<open>
  Lines 14-55.  The only \<^verbatim>\<open>f.close()\<close> is the one of line 54, after the loop;
  there is no \<^verbatim>\<open>try/finally\<close> and no \<^verbatim>\<open>with\<close>, so an exception of the loop
  leaves the function with the state as it is then.
\<close>

definition parse_transactions ::
  "'a pylib \<Rightarrow> os_state \<Rightarrow> csv_source \<Rightarrow> (error + 'a transaction list) \<times> os_state" where
  "parse_transactions L os csv_source =
     (case csv_source of
        Path p \<Rightarrow>
          (case open_file os p of
             Inl e \<Rightarrow> (Inl e, os)
           | Inr (rs, os1) \<Rightarrow>
               (case parse_rows L [] rs of
                  Inl e \<Rightarrow> (Inl e, os1)
                | Inr out \<Rightarrow> (Inr out, close_file os1 p)))
      | Stream rs \<Rightarrow> (parse_rows L [] rs, os))"

section \<open>Categorizer: \<^verbatim>\<open>categorize_transactions\<close>\<close>




section \<open>Dictionaries with insertion order\<close>

text \<open>
  A Python \<^verbatim>\<open>dict\<close> keeps its keys in insertion order, so it is an association
  list with distinct keys.  \<open>dict_upd k f dflt d\<close> is \<^verbatim>\<open>d[k] = f(d[k])\<close> on a
  \<^verbatim>\<open>defaultdict\<close> whose factory returns \<open>dflt\<close>: an existing entry is updated
  in place, a new key is appended.
\<close>

fun dict_upd :: "'k \<Rightarrow> ('v \<Rightarrow> 'v) \<Rightarrow> 'v \<Rightarrow> ('k \<times> 'v) list \<Rightarrow> ('k \<times> 'v) list" where
  "dict_upd k f dflt [] = [(k, f dflt)]"
| "dict_upd k f dflt ((k', v) # kvs) =
     (if k' = k then (k', f v) # kvs else (k', v) # dict_upd k f dflt kvs)"

section \<open>Aggregator: \<^verbatim>\<open>monthly_summary\<close>\<close>

text \<open>Decimal digits of a natural number, and \<^verbatim>\<open>f"{n:0wd}"\<close>.\<close>

definition digit_char :: "nat \<Rightarrow> char" where
  "digit_char n = ''0123456789'' ! n"

fun dec_digits :: "nat \<Rightarrow> string" where
  "dec_digits n =
     (if n < 10 then [digit_char n] else dec_digits (n div 10) @ [digit_char (n mod 10)])"

declare dec_digits.simps [simp del]

definition zero_pad :: "nat \<Rightarrow> nat \<Rightarrow> string" where
  "zero_pad w n = replicate (w - length (dec_digits n)) (CHR ''0'') @ dec_digits n"

text \<open>Lines 102-106: the grouping key of a transaction.\<close>

definition month_key :: "'a transaction \<Rightarrow> string" where
  "month_key t =
     (case date t of
        None \<Rightarrow> ''unknown''
      | Some d \<Rightarrow> zero_pad 4 (year d) @ ''-'' @ zero_pad 2 (month d))"

text \<open>Line 108: \<^verbatim>\<open>float(t.get("amount", 0.0))\<close>.\<close>

definition amount_of :: "'a::zero transaction \<Rightarrow> 'a" where
  "amount_of t = (case amount t of None \<Rightarrow> 0 | Some a \<Rightarrow> a)"

text \<open>Line 109: \<^verbatim>\<open>t.get("category", "Uncategorized")\<close>.\<close>

definition category_of :: "'a transaction \<Rightarrow> string" where
  "category_of t = (case category t of None \<Rightarrow> ''Uncategorized'' | Some c \<Rightarrow> c)"

text \<open>Line 98: the value the \<^verbatim>\<open>defaultdict\<close> creates for a new month.\<close>

definition new_summary :: "'a::zero summary" where
  "new_summary = \<lparr>total = 0, count = 0, by_category = []\<rparr>"

text \<open>Lines 111-113: the three in-place additions on the summary of one month.\<close>

definition add_tx :: "'a::{zero,plus} \<Rightarrow> string \<Rightarrow> 'a summary \<Rightarrow> 'a summary" where
  "add_tx amt cat s =
     s\<lparr>total := total s + amt,
       count := count s + 1,
       by_category := dict_upd cat (\<lambda>v. v + amt) 0 (by_category s)\<rparr>"

definition summary_step ::
  "(string \<times> 'a::{zero,plus} summary) list \<Rightarrow> 'a transaction \<Rightarrow> (string \<times> 'a summary) list" where
  "summary_step acc t = dict_upd (month_key t) (add_tx (amount_of t) (category_of t)) new_summary acc"

text \<open>
  Lines 101-123.  The second loop copies every entry, in order, into a plain
  dictionary, which leaves the association list as it is.
\<close>

definition monthly_summary ::
  "'a::{zero,plus} transaction list \<Rightarrow> (string \<times> 'a summary) list" where
  "monthly_summary txs = foldl summary_step [] txs"

text \<open>
  Two notions used to state what the aggregation computes: the transactions of one
  month, in input order, and the summary obtained by adding them one after the other
  to a fresh summary.
\<close>

definition month_txs :: "string \<Rightarrow> 'a transaction list \<Rightarrow> 'a transaction list" where
  "month_txs k txs = filter (\<lambda>t. month_key t = k) txs"

definition fold_month :: "'a::{zero,plus} transaction list \<Rightarrow> 'a summary" where
  "fold_month ts = foldl (\<lambda>s t. add_tx (amount_of t) (category_of t) s) new_summary ts"

section \<open>Advisor: \<^verbatim>\<open>recommend_budget\<close>\<close>

text \<open>
  Lines 134-138: the latest month.  Keys are compared as Python compares text,
  character by character.  Both \<^verbatim>\<open>[-1]\<close> read a list that is not empty when
  \<open>monthly\<close> is not, which line 130 has checked.
\<close>

definition latest_month :: "(string \<times> 'v) list \<Rightarrow> string" where
  "latest_month monthly =
     (if \<exists>k \<in> set (map fst monthly). k \<noteq> ''unknown''
      then last (sort (filter (\<lambda>k. k \<noteq> ''unknown'') (map fst monthly)))
      else last (map fst monthly))"

text \<open>
  Line 146: the categories ranked by the pair of absolute subtotal and label, largest
  first, cut to three.  The pairs of a dictionary are distinct, so sorting in reverse
  is the reverse of sorting.
\<close>

definition top_spend :: "(string \<times> 'a::{linorder,abs}) list \<Rightarrow> ('a \<times> string) list" where
  "top_spend by_cat = take 3 (rev (sort (map (\<lambda>(k, v). (\<bar>v\<bar>, k)) by_cat)))"

text \<open>Lines 148-150: the text of one suggestion.\<close>

definition reduce_suggestion :: "'a::times pylib \<Rightarrow> 'a \<times> string \<Rightarrow> string" where
  "reduce_suggestion L p =
     (case p of (amt, cat) \<Rightarrow>
        ''Consider reducing spending on '' @ cat @ '' by about $'' @
        format_2f L (amt * float_lit L (2 / 10)) @ '' per month.'')"

text \<open>Lines 145-152: the suggestions on spending.\<close>

definition spending_suggestions ::
  "'a::{linorder,abs,times} pylib \<Rightarrow> 'a summary \<Rightarrow> string list" where
  "spending_suggestions L data =
     (if total data < float_lit L (- 500)
      then map (reduce_suggestion L) (top_spend (by_category data))
      else [''Spending looks reasonable this month.''])"

text \<open>\<^verbatim>\<open>max(a, b)\<close> returns \<open>b\<close> only when it is greater than \<open>a\<close>.\<close>

definition py_max :: "'a::ord \<Rightarrow> 'a \<Rightarrow> 'a" where
  "py_max a b = (if a < b then b else a)"

text \<open>Lines 155-163: the suggestion on savings.\<close>

definition savings_suggestions ::
  "'a::{linorder,zero,minus} pylib \<Rightarrow> 'a summary \<Rightarrow> 'a \<Rightarrow> string list" where
  "savings_suggestions L data target_savings =
     (if 0 < target_savings then
        (let current_savings = (if 0 < total data then total data else 0);
             need = py_max 0 (target_savings - current_savings)
         in if 0 < need
            then [''To reach a target savings of $'' @ format_2f L target_savings @
                  '', increase monthly savings by $'' @ format_2f L need @ ''.'']
            else [''You are meeting or exceeding your savings target.''])
      else [])"

text \<open>
  Lines 130-165.  \<^verbatim>\<open>monthly[latest]\<close> raises \<^verbatim>\<open>KeyError\<close> for a key that
  is not in the dictionary.
\<close>

definition recommend_budget ::
  "'a::{linorder,zero,minus,abs,times} pylib \<Rightarrow> (string \<times> 'a summary) list \<Rightarrow> 'a
     \<Rightarrow> error + string list" where
  "recommend_budget L monthly target_savings =
     (if monthly = [] then Inr [''No data to produce recommendation.'']
      else
        (let latest = latest_month monthly
         in case map_of monthly latest of
              None \<Rightarrow> Inl (KeyError latest)
            | Some data \<Rightarrow>
                Inr (spending_suggestions L data @ savings_suggestions L data target_savings)))"

section \<open>A reference runtime: finite binary64 numbers\<close>

text \<open>
  The finite values of IEEE 754 binary64, each given by the real number it
  denotes.  An operation computes the exact result and rounds it to the nearest
  representable value, ties to the even significand (53 bits, least exponent
  \<open>-1074\<close>).  Infinities, NaN, the sign of zero and overflow are left out.
\<close>

datatype f64 = F64 real

fun bit_len :: "nat \<Rightarrow> nat" where
  "bit_len n = (if n = 0 then 0 else Suc (bit_len (n div 2)))"

declare bit_len.simps [simp del]

definition pow2 :: "int \<Rightarrow> real" where
  "pow2 e = (if 0 \<le> e then 2 ^ nat e else 1 / 2 ^ nat (- e))"

text \<open>\<open>\<lfloor>log\<^sub>2 q\<rfloor>\<close> for \<open>q > 0\<close>.\<close>

definition ilog2 :: "real \<Rightarrow> int" where
  "ilog2 q =
     (if 1 \<le> q then int (bit_len (nat \<lfloor>q\<rfloor>)) - 1
      else - int (bit_len (nat (\<lceil>1 / q\<rceil> - 1))))"

definition round_half_even :: "real \<Rightarrow> int" where
  "round_half_even q =
     (let f = \<lfloor>q\<rfloor>; r = q - of_int f
      in if r < 1 / 2 then f else if 1 / 2 < r then f + 1 else if even f then f else f + 1)"

definition round_f64 :: "real \<Rightarrow> real" where
  "round_f64 q =
     (if q = 0 then 0
      else (let e = max (ilog2 \<bar>q\<bar> - 52) (- 1074)
            in of_int (round_half_even (q / pow2 e)) * pow2 e))"

fun f64_val :: "f64 \<Rightarrow> real" where
  "f64_val (F64 x) = x"

instantiation f64 :: "{zero,plus,minus,times,abs,linorder}"
begin

definition zero_f64 :: f64 where
  "zero_f64 = F64 0"

definition plus_f64 :: "f64 \<Rightarrow> f64 \<Rightarrow> f64" where
  "plus_f64 a b = F64 (round_f64 (f64_val a + f64_val b))"

definition minus_f64 :: "f64 \<Rightarrow> f64 \<Rightarrow> f64" where
  "minus_f64 a b = F64 (round_f64 (f64_val a - f64_val b))"

definition times_f64 :: "f64 \<Rightarrow> f64 \<Rightarrow> f64" where
  "times_f64 a b = F64 (round_f64 (f64_val a * f64_val b))"

definition abs_f64 :: "f64 \<Rightarrow> f64" where
  "abs_f64 a = F64 \<bar>f64_val a\<bar>"

definition less_eq_f64 :: "f64 \<Rightarrow> f64 \<Rightarrow> bool" where
  "less_eq_f64 a b \<longleftrightarrow> f64_val a \<le> f64_val b"

definition less_f64 :: "f64 \<Rightarrow> f64 \<Rightarrow> bool" where
  "less_f64 a b \<longleftrightarrow> f64_val a < f64_val b"

instance
proof
  fix x y z :: f64
  show "x < y \<longleftrightarrow> x \<le> y \<and> \<not> y \<le> x"
    by (auto simp: less_f64_def less_eq_f64_def)
  show "x \<le> x"
    by (simp add: less_eq_f64_def)
  show "x \<le> y \<Longrightarrow> y \<le> z \<Longrightarrow> x \<le> z"
    by (simp add: less_eq_f64_def)
  show "x \<le> y \<Longrightarrow> y \<le> x \<Longrightarrow> x = y"
    by (cases x; cases y) (simp add: less_eq_f64_def)
  show "x \<le> y \<or> y \<le> x"
    by (auto simp: less_eq_f64_def)
qed

end

text \<open>The float a literal denotes, and the format specification \<^verbatim>\<open>.2f\<close>.\<close>

definition f64_lit :: "real \<Rightarrow> f64" where
  "f64_lit q = F64 (round_f64 q)"

definition f64_format_2f :: "f64 \<Rightarrow> string" where
  "f64_format_2f a =
     (let n = nat (round_half_even (\<bar>f64_val a\<bar> * 100))
      in (if f64_val a < 0 then ''-'' else '''') @
         dec_digits (n div 100) @ ''.'' @ zero_pad 2 (n mod 100))"

section \<open>A reference runtime: the library parsers on plain ASCII text\<close>

text \<open>
  \<^verbatim>\<open>strptime\<close> turns a format into a regular expression and matches it at the
  start of the text: \<^verbatim>\<open>%Y\<close> is four digits, \<^verbatim>\<open>%m\<close> is
  \<^verbatim>\<open>1[0-2]|0[1-9]|[1-9]\<close>, \<^verbatim>\<open>%d\<close> is
  \<^verbatim>\<open>3[01]|[12]\d|0[1-9]|[1-9]| [1-9]\<close>; text left over after the match and a day
  that the month does not have are errors.  An alternative is a list of character
  sets, one for each position.
\<close>

definition digits :: string where
  "digits = ''0123456789''"

definition digit_val :: "char \<Rightarrow> nat" where
  "digit_val c =
     (case map_of (zip ''0123456789'' [0, 1, 2, 3, 4, 5, 6, 7, 8, 9]) c of
        None \<Rightarrow> 0
      | Some n \<Rightarrow> n)"

definition digits_val :: "string \<Rightarrow> nat" where
  "digits_val s = foldl (\<lambda>a c. 10 * a + digit_val c) 0 (filter (\<lambda>c. c \<in> set digits) s)"

fun match_sets :: "string list \<Rightarrow> string \<Rightarrow> (string \<times> string) option" where
  "match_sets [] s = Some ([], s)"
| "match_sets (cs # css) [] = None"
| "match_sets (cs # css) (c # s) =
     (if c \<in> set cs
      then (case match_sets css s of None \<Rightarrow> None | Some (m, r) \<Rightarrow> Some (c # m, r))
      else None)"

fun match_alts :: "string list list \<Rightarrow> string \<Rightarrow> (string \<times> string) option" where
  "match_alts [] s = None"
| "match_alts (alt # alts) s =
     (case match_sets alt s of None \<Rightarrow> match_alts alts s | Some mr \<Rightarrow> Some mr)"

definition directive :: "char \<Rightarrow> string list list" where
  "directive c =
     (if c = CHR ''Y'' then [[digits, digits, digits, digits]]
      else if c = CHR ''m'' then [[''1'', ''012''], [''0'', ''123456789''], [''123456789'']]
      else if c = CHR ''d'' then
        [[''3'', ''01''], [''12'', digits], [''0'', ''123456789''], [''123456789''],
         ['' '', ''123456789'']]
      else [])"

text \<open>
  Matching a format of directives and literal characters; the result maps each
  directive to the number it matched.
\<close>

fun match_format :: "string \<Rightarrow> string \<Rightarrow> (char \<times> nat) list option" where
  "match_format [] s = (if s = [] then Some [] else None)"
| "match_format [c] s = (if s = [c] then Some [] else None)"
| "match_format (c # c' # fmt) s =
     (if c = CHR ''%'' then
        (case match_alts (directive c') s of
           None \<Rightarrow> None
         | Some (m, r) \<Rightarrow>
             (case match_format fmt r of
                None \<Rightarrow> None
              | Some fvs \<Rightarrow> Some ((c', digits_val m) # fvs)))
      else
        (case s of
           [] \<Rightarrow> None
         | x # r \<Rightarrow> if x = c then match_format (c' # fmt) r else None))"

definition leap_year :: "nat \<Rightarrow> bool" where
  "leap_year y \<longleftrightarrow> y mod 4 = 0 \<and> (y mod 100 \<noteq> 0 \<or> y mod 400 = 0)"

definition days_in_month :: "nat \<Rightarrow> nat \<Rightarrow> nat" where
  "days_in_month y m =
     (if m = 2 then (if leap_year y then 29 else 28)
      else if m \<in> set [4, 6, 9, 11] then 30 else 31)"

definition make_date :: "nat \<Rightarrow> nat \<Rightarrow> nat \<Rightarrow> error + date" where
  "make_date y m d =
     (if 1 \<le> y \<and> y \<le> 9999 \<and> 1 \<le> m \<and> m \<le> 12 \<and> 1 \<le> d \<and> d \<le> days_in_month y m
      then Inr \<lparr>year = y, month = m, day = d\<rparr>
      else Inl (ValueError ''date value out of range''))"

definition ref_strptime :: "string \<Rightarrow> string \<Rightarrow> error + date" where
  "ref_strptime s fmt =
     (case match_format fmt s of
        None \<Rightarrow> Inl (ValueError (''time data does not match format '' @ fmt))
      | Some fvs \<Rightarrow>
          (case (map_of fvs (CHR ''Y''), map_of fvs (CHR ''m''), map_of fvs (CHR ''d'')) of
             (Some y, Some m, Some d) \<Rightarrow> make_date y m d
           | _ \<Rightarrow> Inl (ValueError ''incomplete date'')))"

text \<open>
  \<^verbatim>\<open>fromisoformat\<close> on text that is a date only: \<^verbatim>\<open>YYYY-MM-DD\<close> with two
  digits for month and day.
\<close>

definition ref_fromisoformat :: "string \<Rightarrow> error + date" where
  "ref_fromisoformat s =
     (case match_sets [digits, digits, digits, digits, ''-'', digits, digits, ''-'', digits, digits] s of
        Some (m, []) \<Rightarrow>
          make_date (digits_val (take 4 m)) (digits_val (take 2 (drop 5 m)))
            (digits_val (drop 8 m))
      | _ \<Rightarrow> Inl (ValueError (''Invalid isoformat string: '' @ s)))"

text \<open>
  \<^verbatim>\<open>float\<close> on plain decimal notation: blanks around it, a sign, digits and a
  fraction.  The value is rounded to binary64.
\<close>

definition split_sign :: "string \<Rightarrow> bool \<times> string" where
  "split_sign s =
     (case s of
        [] \<Rightarrow> (False, [])
      | c # r \<Rightarrow> if c = CHR ''-'' then (True, r) else if c = CHR ''+'' then (False, r) else (False, s))"

definition ref_float :: "string \<Rightarrow> error + f64" where
  "ref_float s =
     (case split_sign (py_strip s) of (neg, body) \<Rightarrow>
        (let ip = takeWhile (\<lambda>c. c \<in> set digits) body;
             rest = dropWhile (\<lambda>c. c \<in> set digits) body;
             fp = (case rest of [] \<Rightarrow> [] | c # r \<Rightarrow> r);
             ok = ((rest = [] \<or> hd rest = CHR ''.'') \<and> (\<forall>c \<in> set fp. c \<in> set digits)
                   \<and> ip @ fp \<noteq> []);
             v = of_nat (digits_val (ip @ fp)) / 10 ^ length fp
         in if ok then Inr (f64_lit (if neg then - v else v))
            else Inl (ValueError (''could not convert string to float: '' @ s))))"

definition ref_lib :: "f64 pylib" where
  "ref_lib =
     \<lparr>strptime = ref_strptime, fromisoformat = ref_fromisoformat, float_of_str = ref_float,
      float_lit = f64_lit, format_2f = f64_format_2f\<rparr>"

section \<open>Concrete inputs used in the evaluations\<close>

text \<open>The three transactions of the aggregation test, with integer amounts.\<close>

definition scenario3 :: "int transaction list" where
  "scenario3 =
     [\<lparr>date = Some \<lparr>year = 2025, month = 1, day = 1\<rparr>, description = Some ''A'',
        amount = Some (- 10), category = Some ''X''\<rparr>,
      \<lparr>date = Some \<lparr>year = 2025, month = 1, day = 5\<rparr>, description = Some ''B'',
        amount = Some (- 5), category = Some ''Y''\<rparr>,
      \<lparr>date = Some \<lparr>year = 2025, month = 2, day = 1\<rparr>, description = Some ''C'',
        amount = Some 100, category = Some ''Income''\<rparr>]"


text \<open>
  A file whose only row has a date no format accepts, a file with the two rows of the
  parsing test, and a stream whose row has no date cell.
\<close>

definition bad_date_rows :: "row list" where
  "bad_date_rows =
     [[(''date'', Some ''not-a-date''), (''description'', Some ''Coffee''), (''amount'', Some ''1'')]]"

definition good_rows :: "row list" where
  "good_rows =
     [[(''date'', Some ''2025-01-05''), (''description'', Some ''Coffee Shop''),
       (''amount'', Some ''-3.50'')],
      [(''date'', Some ''2025-01-06''), (''description'', Some ''Salary''),
       (''amount'', Some ''2000'')]]"

definition no_date_rows :: "row list" where
  "no_date_rows = [[(''description'', Some ''Coffee''), (''amount'', Some ''1'')]]"

definition os0 :: os_state where
  "os0 = \<lparr>files = [(''bad.csv'', bad_date_rows), (''good.csv'', good_rows)], open_handles = []\<rparr>"

section \<open>Properties of the dictionary update\<close>

lemma dict_upd_keys:
  "map fst (dict_upd k f d kvs) =
     (if k \<in> fst ` set kvs then map fst kvs else map fst kvs @ [k])"
  by (induction kvs) (fastforce simp: image_iff)+

lemma dict_upd_distinct:
  "distinct (map fst kvs) \<Longrightarrow> distinct (map fst (dict_upd k f d kvs))"
  by (simp add: dict_upd_keys)

lemma dict_upd_map_of:
  "map_of (dict_upd k f d kvs) =
     (map_of kvs)(k \<mapsto> f (case map_of kvs k of None \<Rightarrow> d | Some v \<Rightarrow> v))"
  by (induction kvs) (auto simp: fun_eq_iff)

section \<open>Properties of the aggregation\<close>

text \<open>
  The summary of one month is the fold of \<open>add_tx\<close> over the transactions of that
  month, in input order.
\<close>

lemma monthly_summary_snoc:
  "monthly_summary (txs @ [t]) = summary_step (monthly_summary txs) t"
  by (simp add: monthly_summary_def)

lemma monthly_summary_keys_distinct: "distinct (map fst (monthly_summary txs))"
proof (induction txs rule: rev_induct)
  case Nil
  show ?case by (simp add: monthly_summary_def)
next
  case (snoc t txs)
  then show ?case
    by (simp add: monthly_summary_snoc summary_step_def dict_upd_distinct)
qed

lemma monthly_summary_keys: "set (map fst (monthly_summary txs)) = month_key ` set txs"
proof (induction txs rule: rev_induct)
  case Nil
  show ?case by (simp add: monthly_summary_def)
next
  case (snoc t txs)
  then show ?case
    by (auto simp: monthly_summary_snoc summary_step_def dict_upd_keys)
qed

lemma monthly_summary_map_of:
  "map_of (monthly_summary txs) k =
     (if month_txs k txs = [] then None else Some (fold_month (month_txs k txs)))"
proof (induction txs rule: rev_induct)
  case Nil
  show ?case by (simp add: monthly_summary_def month_txs_def)
next
  case (snoc t txs)
  then show ?case
    by (auto simp: monthly_summary_snoc summary_step_def dict_upd_map_of
        month_txs_def fold_month_def)
qed

lemma monthly_summary_entry:
  assumes "(k, s) \<in> set (monthly_summary txs)"
  shows "s = fold_month (month_txs k txs)" and "month_txs k txs \<noteq> []"
proof -
  from assms have "map_of (monthly_summary txs) k = Some s"
    by (simp add: monthly_summary_keys_distinct)
  then show "s = fold_month (month_txs k txs)" and "month_txs k txs \<noteq> []"
    by (simp_all add: monthly_summary_map_of split: if_splits)
qed

lemma fold_month_total: "total (fold_month ts) = foldl (+) 0 (map amount_of ts)"
  by (induction ts rule: rev_induct) (simp_all add: fold_month_def add_tx_def new_summary_def)

lemma fold_month_count: "count (fold_month ts) = int (length ts)"
  by (induction ts rule: rev_induct) (simp_all add: fold_month_def add_tx_def new_summary_def)

lemma scenario3_summary:
  "monthly_summary scenario3 =
     [(''2025-01'', \<lparr>total = - 15, count = 2, by_category = [(''X'', - 10), (''Y'', - 5)]\<rparr>),
      (''2025-02'', \<lparr>total = 100, count = 1, by_category = [(''Income'', 100)]\<rparr>)]"
  by (simp add: monthly_summary_def scenario3_def summary_step_def month_key_def
      zero_pad_def dec_digits.simps digit_char_def amount_of_def category_of_def
      add_tx_def new_summary_def)

text \<open>
  Claim C3.  For every list of categorized transactions and every month key \<open>k\<close> with
  an entry in the output of \<open>monthly_summary\<close>: the total is the sum, accumulated from
  \<open>0\<close> in input order, of the amounts of exactly the input transactions whose key is
  \<open>k\<close>, and the count is the number of those transactions.  The keys of the output
  are distinct and are exactly the month keys observed in the input.  The statement
  holds for every amount type, whatever its addition does.
\<close>

theorem monthly_summary_totals_counts_keys:
  fixes txs :: "'a::{zero,plus} transaction list"
  shows
    "(\<forall>(k, s) \<in> set (monthly_summary txs).
        total s = foldl (+) 0 (map amount_of (filter (\<lambda>t. month_key t = k) txs)) \<and>
        count s = int (length (filter (\<lambda>t. month_key t = k) txs)))
     \<and> distinct (map fst (monthly_summary txs))
     \<and> set (map fst (monthly_summary txs)) = month_key ` set txs"
proof -
  have "total s = foldl (+) 0 (map amount_of (filter (\<lambda>t. month_key t = k) txs)) \<and>
        count s = int (length (filter (\<lambda>t. month_key t = k) txs))"
    if "(k, s) \<in> set (monthly_summary txs)" for k s
    using monthly_summary_entry(1) [OF that]
    by (simp add: fold_month_total fold_month_count month_txs_def)
  then show ?thesis
    using monthly_summary_keys_distinct [of txs] monthly_summary_keys [of txs] by blast
qed

theorem monthly_summary_totals_counts_keys_witness:
  "(''2025-01'', \<lparr>total = - 15, count = 2, by_category = [(''X'', - 10), (''Y'', - 5)]\<rparr>)
     \<in> set (monthly_summary scenario3)
   \<and> foldl (+) 0 (map amount_of (filter (\<lambda>t. month_key t = ''2025-01'') scenario3)) = (- 15 :: int)
   \<and> int (length (filter (\<lambda>t. month_key t = ''2025-01'') scenario3)) = 2
   \<and> map fst (monthly_summary scenario3) = [''2025-01'', ''2025-02'']"
  using monthly_summary_totals_counts_keys [of scenario3]
  unfolding scenario3_summary by auto

section \<open>Properties of the categorization\<close>






section \<open>Properties of the parser\<close>

lemmas ref_eval =
  ref_lib_def ref_strptime_def ref_fromisoformat_def directive_def digits_def
  digit_val_def digits_val_def make_date_def days_in_month_def leap_year_def
  py_strip_def is_space_def strip_opt_def py_or_def py_or_str_def py_str_def row_get_def
  parse_date_def parse_amount_def parse_row_def

lemmas f64_eval =
  f64_lit_def round_f64_def ilog2_def bit_len.simps round_half_even_def pow2_def
  plus_f64_def minus_f64_def times_f64_def abs_f64_def less_f64_def less_eq_f64_def zero_f64_def

lemma ref_float_text:
  "ref_float ''2000'' = Inr (f64_lit 2000)"
  "ref_float ''-3.50'' = Inr (f64_lit (- (7 / 2)))"
  by (simp_all add: ref_float_def split_sign_def py_strip_def is_space_def digits_def
      digits_val_def digit_val_def)

lemma f64_lit_exact:
  "f64_lit 2000 = F64 2000"
  "f64_lit (- (7 / 2)) = F64 (- (7 / 2))"
  by (simp_all add: f64_eval)

text \<open>The loop stops at the first exception.\<close>

lemma parse_rows_append:
  "parse_rows L out (xs @ ys) =
     (case parse_rows L out xs of Inl e \<Rightarrow> Inl e | Inr out' \<Rightarrow> parse_rows L out' ys)"
  by (induction xs arbitrary: out) (auto split: sum.splits)

lemma parse_rows_stop:
  assumes "r \<noteq> []" and "parse_row L r = Inl e"
  shows "(\<exists>e'. parse_rows L [] (pre @ r # post) = Inl e')
     \<and> (\<forall>out. parse_rows L [] pre = Inr out \<longrightarrow> parse_rows L [] (pre @ r # post) = Inl e)"
  using assms by (auto simp: parse_rows_append split: sum.splits)

lemma parse_transactions_result:
  assumes "csv_source = Stream rs \<or> (csv_source = Path p \<and> map_of (files os) p = Some rs)"
  shows "fst (parse_transactions L os csv_source) = parse_rows L [] rs"
  using assms by (auto simp: parse_transactions_def open_file_def split: sum.splits)

text \<open>The date of a row.\<close>

lemma try_formats_None:
  "(\<forall>fmt \<in> set fmts.
      isl (case strip_opt raw of Inl e \<Rightarrow> Inl e | Inr s \<Rightarrow> strptime L s fmt))
   \<Longrightarrow> try_formats L raw fmts = None"
  by (induction fmts) (auto split: sum.splits)

lemma parse_date_absent:
  "parse_date L None = Inl (ValueError ''Unrecognized date format: None'')"
  by (simp add: parse_date_def strip_opt_def py_str_def)

lemma parse_date_rejected:
  assumes "\<forall>fmt \<in> set [''%Y-%m-%d'', ''%d-%m-%Y'', ''%m-%d-%Y''].
             isl (strptime L (py_strip raw) fmt)"
    and "isl (fromisoformat L (py_strip raw))"
  shows "parse_date L (Some raw) = Inl (ValueError (''Unrecognized date format: '' @ raw))"
proof -
  have "try_formats L (Some raw) [''%Y-%m-%d'', ''%d-%m-%Y'', ''%m-%d-%Y''] = None"
    using assms(1) by (intro try_formats_None) (simp add: strip_opt_def)
  then show ?thesis
    using assms(2) by (auto simp: parse_date_def strip_opt_def py_str_def split: sum.splits)
qed

lemma parse_row_date_error:
  "parse_date L (py_or (row_get r ''date'') (row_get r ''Date'')) = Inl e
   \<Longrightarrow> parse_row L r = Inl e"
  by (simp add: parse_row_def)

text \<open>Evaluations with the reference runtime.\<close>

lemma bad_date_rows_error:
  "parse_rows ref_lib [] bad_date_rows =
     Inl (ValueError ''Unrecognized date format: not-a-date'')"
  by (simp add: bad_date_rows_def ref_eval)

lemma no_date_rows_error:
  "parse_rows ref_lib [] no_date_rows = Inl (ValueError ''Unrecognized date format: None'')"
  by (simp add: no_date_rows_def ref_eval)

lemma good_rows_parsed:
  "parse_rows ref_lib [] good_rows =
     Inr [\<lparr>date = Some \<lparr>year = 2025, month = 1, day = 5\<rparr>, description = Some ''Coffee Shop'',
            amount = Some (F64 (- (7 / 2))), category = None\<rparr>,
          \<lparr>date = Some \<lparr>year = 2025, month = 1, day = 6\<rparr>, description = Some ''Salary'',
            amount = Some (F64 2000), category = None\<rparr>]"
  by (simp add: good_rows_def ref_eval ref_float_text f64_lit_exact)

text \<open>
  Claim C1, evaluated on the code.  The claim says that a file opened by
  \<open>parse_transactions\<close> is closed on every exit path.  With the path of a file whose
  row has the date \<^verbatim>\<open>not-a-date\<close>, the call raises the \<^verbatim>\<open>ValueError\<close> of
  line 43 and the handle it opened is still open afterwards; with the path of a
  well-formed file the handle is closed on return.
\<close>

theorem parse_transactions_leaves_file_open:
  "parse_transactions ref_lib os0 (Path ''bad.csv'') =
     (Inl (ValueError ''Unrecognized date format: not-a-date''),
      os0\<lparr>open_handles := [''bad.csv'']\<rparr>)
   \<and> snd (parse_transactions ref_lib os0 (Path ''good.csv'')) = os0"
  by (simp add: parse_transactions_def open_file_def close_file_def os0_def
      bad_date_rows_error good_rows_parsed)



text \<open>The key of a dated transaction consists of digits and a hyphen.\<close>

lemma dec_digits_chars: "set (dec_digits n) \<subseteq> set ''0123456789''"
proof (induction n rule: dec_digits.induct)
  case (1 n)
  have d: "digit_char k \<in> set ''0123456789''" if "k < 10" for k
  proof -
    from that have "k \<in> {0, 1, 2, 3, 4, 5, 6, 7, 8, 9}" by auto
    then show ?thesis by (auto simp: digit_char_def)
  qed
  show ?case
  proof (cases "n < 10")
    case True
    then show ?thesis using d [of n] by (subst dec_digits.simps) simp
  next
    case False
    then show ?thesis
      using "1.IH" d [of "n mod 10"] by (subst dec_digits.simps) auto
  qed
qed

lemma zero_pad_chars: "set (zero_pad w n) \<subseteq> set ''0123456789''"
  using dec_digits_chars [of n] by (auto simp: zero_pad_def)

lemma month_key_dated: "date t = Some d \<Longrightarrow> month_key t \<noteq> ''unknown''"
proof
  assume d: "date t = Some d" and "month_key t = ''unknown''"
  then have "CHR ''u'' \<in> set (zero_pad 4 (year d) @ ''-'' @ zero_pad 2 (month d))"
    by (simp add: month_key_def)
  then show False
    using zero_pad_chars [of 4 "year d"] zero_pad_chars [of 2 "month d"] by auto
qed

text \<open>Every transaction the loop appends has a date.\<close>

lemma parse_row_dated: "parse_row L r = Inr t \<Longrightarrow> \<exists>d. date t = Some d"
  by (auto simp: parse_row_def Let_def split: sum.splits)

lemma parse_rows_dated:
  "parse_rows L out rs = Inr out' \<Longrightarrow> \<forall>t \<in> set out. \<exists>d. date t = Some d
   \<Longrightarrow> \<forall>t \<in> set out'. \<exists>d. date t = Some d"
proof (induction rs arbitrary: out)
  case Nil
  then show ?case by simp
next
  case (Cons r rs)
  show ?case
  proof (cases "r = []")
    case True
    with Cons show ?thesis by simp
  next
    case False
    with Cons.prems(1) obtain t where t: "parse_row L r = Inr t"
      and rest: "parse_rows L (out @ [t]) rs = Inr out'"
      by (auto split: sum.splits)
    from parse_row_dated [OF t] Cons.prems(2)
    have "\<forall>t \<in> set (out @ [t]). \<exists>d. date t = Some d" by auto
    from Cons.IH [OF rest this] show ?thesis .
  qed
qed

text \<open>
  Claim C8 as stated fails on the code.  The claim says that a row with a missing date
  cell fails before the path of the date-format error is reached.  For a stream whose
  only row has no date cell, the call raises the \<^verbatim>\<open>ValueError\<close> of line 43 itself:
  the \<^verbatim>\<open>AttributeError\<close> of \<^verbatim>\<open>None.strip()\<close> is raised inside the
  \<^verbatim>\<open>try\<close> blocks and caught there.
\<close>

theorem parse_transactions_missing_date_counterexample:
  "fst (parse_transactions ref_lib os0 (Stream no_date_rows)) =
     Inl (ValueError ''Unrecognized date format: None'')"
  by (simp add: parse_transactions_def no_date_rows_error)

text \<open>
  Claim C8, amended.  Whatever the input, every transaction that
  \<open>parse_transactions\<close> returns has a date, so its month key is not
  \<^verbatim>\<open>"unknown"\<close>.  A processed row whose date cell is missing or empty under both
  spellings of the column makes the call raise the \<^verbatim>\<open>ValueError\<close> of line 43,
  with \<^verbatim>\<open>None\<close> or the empty text in its message (for the empty text, given that
  the library rejects it as a date, as Python's does).
\<close>

theorem parse_transactions_date_present:
  assumes "csv_source = Stream rs \<or> (csv_source = Path p \<and> map_of (files os) p = Some rs)"
  shows
    "(\<forall>out. fst (parse_transactions L os csv_source) = Inr out \<longrightarrow>
        (\<forall>t \<in> set out. date t \<noteq> None \<and> month_key t \<noteq> ''unknown''))
     \<and> (\<forall>pre r post out.
          rs = pre @ r # post \<and> r \<noteq> [] \<and> parse_rows L [] pre = Inr out \<and>
          row_get r ''date'' \<in> {None, Some ''''} \<and> row_get r ''Date'' \<in> {None, Some ''''} \<and>
          (row_get r ''Date'' = Some '''' \<longrightarrow>
             (\<forall>fmt \<in> set [''%Y-%m-%d'', ''%d-%m-%Y'', ''%m-%d-%Y'']. isl (strptime L '''' fmt)) \<and>
             isl (fromisoformat L ''''))
          \<longrightarrow> fst (parse_transactions L os csv_source) =
                Inl (ValueError (''Unrecognized date format: '' @ py_str (row_get r ''Date''))))"
proof -
  note res = parse_transactions_result [OF assms, of L]
  have 1: "date t \<noteq> None \<and> month_key t \<noteq> ''unknown''"
    if "fst (parse_transactions L os csv_source) = Inr out" "t \<in> set out" for out t
  proof -
    from that(1) have "parse_rows L [] rs = Inr out" by (simp add: res)
    from parse_rows_dated [OF this] that(2) obtain d where "date t = Some d" by auto
    then show ?thesis by (simp add: month_key_dated)
  qed
  have 2: "fst (parse_transactions L os csv_source) =
       Inl (ValueError (''Unrecognized date format: '' @ py_str (row_get r ''Date'')))"
    if "rs = pre @ r # post" "r \<noteq> []" "parse_rows L [] pre = Inr out"
      "row_get r ''date'' \<in> {None, Some ''''}" "row_get r ''Date'' \<in> {None, Some ''''}"
      "row_get r ''Date'' = Some '''' \<longrightarrow>
         (\<forall>fmt \<in> set [''%Y-%m-%d'', ''%d-%m-%Y'', ''%m-%d-%Y'']. isl (strptime L '''' fmt)) \<and>
         isl (fromisoformat L '''')"
    for pre r post out
  proof -
    have raw: "py_or (row_get r ''date'') (row_get r ''Date'') = row_get r ''Date''"
      using that(4) by (auto simp: py_or_def)
    have "parse_date L (row_get r ''Date'') =
        Inl (ValueError (''Unrecognized date format: '' @ py_str (row_get r ''Date'')))"
    proof (cases "row_get r ''Date''")
      case None
      then show ?thesis by (simp add: parse_date_absent py_str_def)
    next
      case (Some s)
      with that(5) have s: "s = ''''" by simp
      have e: "py_strip '''' = ''''" by (simp add: py_strip_def)
      from that(6) Some s show ?thesis
        using parse_date_rejected [of L "''''"] by (simp add: e py_str_def)
    qed
    then have "parse_row L r =
        Inl (ValueError (''Unrecognized date format: '' @ py_str (row_get r ''Date'')))"
      by (simp add: parse_row_date_error raw)
    from parse_rows_stop [OF that(2) this, of pre post] that(1,3) show ?thesis
      by (simp add: res)
  qed
  from 1 2 show ?thesis by blast
qed

theorem parse_transactions_date_present_witness:
  "map_of (files os0) ''good.csv'' = Some good_rows
   \<and> length (projr (fst (parse_transactions ref_lib os0 (Path ''good.csv'')))) = 2
   \<and> map month_key (projr (fst (parse_transactions ref_lib os0 (Path ''good.csv''))))
       = [''2025-01'', ''2025-01'']
   \<and> no_date_rows = [] @ hd no_date_rows # []
   \<and> hd no_date_rows \<noteq> []
   \<and> parse_rows ref_lib [] [] = Inr []
   \<and> row_get (hd no_date_rows) ''date'' = None
   \<and> row_get (hd no_date_rows) ''Date'' = None
   \<and> fst (parse_transactions ref_lib os0 (Stream no_date_rows)) =
       Inl (ValueError (''Unrecognized date format: '' @ py_str (row_get (hd no_date_rows) ''Date'')))"
proof -
  have g: "Path ''good.csv'' = Stream good_rows \<or>
      (Path ''good.csv'' = Path ''good.csv'' \<and> map_of (files os0) ''good.csv'' = Some good_rows)"
    by (simp add: os0_def)
  have gp: "fst (parse_transactions ref_lib os0 (Path ''good.csv'')) = parse_rows ref_lib [] good_rows"
    by (simp add: parse_transactions_def open_file_def os0_def split: sum.splits)
  have keys: "map month_key (projr (parse_rows ref_lib [] good_rows)) = [''2025-01'', ''2025-01'']"
    by (simp add: good_rows_parsed month_key_def zero_pad_def dec_digits.simps digit_char_def)
  have n: "Stream no_date_rows = Stream no_date_rows \<or>
      (Stream no_date_rows = Path [] \<and> map_of (files os0) [] = Some no_date_rows)"
    by simp
  have h: "no_date_rows = [] @ hd no_date_rows # []" "hd no_date_rows \<noteq> []"
    "parse_rows ref_lib [] [] = Inr []"
    "row_get (hd no_date_rows) ''date'' = None" "row_get (hd no_date_rows) ''Date'' = None"
    by (simp_all add: no_date_rows_def row_get_def)
  note c = conjunct2 [OF parse_transactions_date_present [OF n, of ref_lib], rule_format,
      of "[]" "hd no_date_rows" "[]" "[]"]
  from h have "fst (parse_transactions ref_lib os0 (Stream no_date_rows)) =
      Inl (ValueError (''Unrecognized date format: '' @ py_str (row_get (hd no_date_rows) ''Date'')))"
    by (intro c) simp
  with g gp keys h show ?thesis
    by (simp add: good_rows_parsed)
qed

end
